theory Spec2Isabelle
  imports Main "HOL-Library.Word" "HOL-Library.Signed_Division"
begin

section \<open>The primitive type system (package api)\<close>

subsection \<open>The tag enumeration\<close>

text \<open>
  \<^verbatim>\<open>type PrimitiveType int\<close> with eleven \<^verbatim>\<open>iota\<close> constants: a closed enumeration, in
  the order of the source.
\<close>

datatype PrimitiveType =
    PrimitiveTypeUnknown
  | PrimitiveTypeString
  | PrimitiveTypeInteger
  | PrimitiveTypeFloat
  | PrimitiveTypeBoolean
  | PrimitiveTypeTimestamp
  | PrimitiveTypeStringList
  | PrimitiveTypeIntegerList
  | PrimitiveTypeFloatList
  | PrimitiveTypeBooleanList
  | PrimitiveTypeTimestampList

text \<open>\<^verbatim>\<open>func (pt PrimitiveType) Scalar() bool\<close>: false on the five list tags, true otherwise.\<close>

fun Scalar :: "PrimitiveType \<Rightarrow> bool" where
  "Scalar PrimitiveTypeStringList = False"
| "Scalar PrimitiveTypeIntegerList = False"
| "Scalar PrimitiveTypeFloatList = False"
| "Scalar PrimitiveTypeBooleanList = False"
| "Scalar PrimitiveTypeTimestampList = False"
| "Scalar pt = True"

text \<open>\<^verbatim>\<open>func (pt PrimitiveType) Singular() PrimitiveType\<close>; the default branch returns \<^verbatim>\<open>pt\<close>.\<close>

fun Singular :: "PrimitiveType \<Rightarrow> PrimitiveType" where
  "Singular PrimitiveTypeStringList = PrimitiveTypeString"
| "Singular PrimitiveTypeIntegerList = PrimitiveTypeInteger"
| "Singular PrimitiveTypeFloatList = PrimitiveTypeFloat"
| "Singular PrimitiveTypeBooleanList = PrimitiveTypeBoolean"
| "Singular PrimitiveTypeTimestampList = PrimitiveTypeTimestamp"
| "Singular pt = pt"

text \<open>\<^verbatim>\<open>func (pt PrimitiveType) Plural() PrimitiveType\<close>; the default branch returns \<^verbatim>\<open>pt\<close>.\<close>

fun Plural :: "PrimitiveType \<Rightarrow> PrimitiveType" where
  "Plural PrimitiveTypeString = PrimitiveTypeStringList"
| "Plural PrimitiveTypeInteger = PrimitiveTypeIntegerList"
| "Plural PrimitiveTypeFloat = PrimitiveTypeFloatList"
| "Plural PrimitiveTypeBoolean = PrimitiveTypeBooleanList"
| "Plural PrimitiveTypeTimestamp = PrimitiveTypeTimestampList"
| "Plural pt = pt"

text \<open>
  \<^verbatim>\<open>func (pt PrimitiveType) String() string\<close>, with the source's spelling of the float
  list.
\<close>

fun PrimitiveType_String :: "PrimitiveType \<Rightarrow> string" where
  "PrimitiveType_String PrimitiveTypeString = ''string''"
| "PrimitiveType_String PrimitiveTypeInteger = ''int''"
| "PrimitiveType_String PrimitiveTypeFloat = ''float''"
| "PrimitiveType_String PrimitiveTypeBoolean = ''bool''"
| "PrimitiveType_String PrimitiveTypeTimestamp = ''timestamp''"
| "PrimitiveType_String PrimitiveTypeStringList = ''[]string''"
| "PrimitiveType_String PrimitiveTypeIntegerList = ''[]int''"
| "PrimitiveType_String PrimitiveTypeFloatList = ''[]]float''"
| "PrimitiveType_String PrimitiveTypeBooleanList = ''[]bool''"
| "PrimitiveType_String PrimitiveTypeTimestampList = ''[]timestamp''"
| "PrimitiveType_String PrimitiveTypeUnknown = ''(unknown)''"

subsection \<open>The alias table\<close>

text \<open>
  \<^verbatim>\<open>strings.ToLower\<close> on ASCII text: the letters A to Z move to a to z, every other
  byte stays. The names this development lowers (the names of Go types) are ASCII.
\<close>

definition lower_byte :: "char \<Rightarrow> char" where
  "lower_byte c =
     (if 65 \<le> (of_char c :: nat) \<and> (of_char c :: nat) \<le> 90
      then char_of ((of_char c :: nat) + 32) else c)"

definition ToLower :: "string \<Rightarrow> string" where
  "ToLower s = map lower_byte s"

text \<open>\<^verbatim>\<open>func StringToPrimitiveType(s string) PrimitiveType\<close>: the switch, case by case.\<close>

definition StringToPrimitiveType :: "string \<Rightarrow> PrimitiveType" where
  "StringToPrimitiveType s =
     (let l = ToLower s in
      if l = ''string'' \<or> l = ''text'' then PrimitiveTypeString
      else if l = ''integer'' \<or> l = ''int'' \<or> l = ''int32'' then PrimitiveTypeInteger
      else if l = ''float'' \<or> l = ''double'' \<or> l = ''float32'' \<or> l = ''float64''
        then PrimitiveTypeFloat
      else if l = ''time'' \<or> l = ''datetime'' \<or> l = ''timestamp'' \<or> l = ''time.time''
           \<or> l = ''datetime.datetime''
        then PrimitiveTypeTimestamp
      else if l = ''bool'' \<or> l = ''boolean'' then PrimitiveTypeBoolean
      else if l = ''[]string'' \<or> l = ''[]text'' then PrimitiveTypeStringList
      else if l = ''[]integer'' \<or> l = ''[]int'' \<or> l = ''[]int64'' \<or> l = ''[]int32''
        then PrimitiveTypeIntegerList
      else if l = ''[]float'' \<or> l = ''[]double'' \<or> l = ''[]float32'' \<or> l = ''[]float64''
        then PrimitiveTypeFloatList
      else if l = ''[]bool'' \<or> l = ''[]boolean'' then PrimitiveTypeBooleanList
      else if l = ''[]time'' \<or> l = ''[]datetime'' \<or> l = ''[]timestamp'' \<or> l = ''[]time.time''
        then PrimitiveTypeTimestampList
      else PrimitiveTypeUnknown)"


section \<open>Errors and panics\<close>

text \<open>
  A Go call either returns or panics. A function of the model returns \<open>error + 'a\<close>:
  \<open>Inr\<close> is the returned value with a nil error, \<open>Inl\<close> an error, and the error
  \<open>Panic\<close> stands for a panic that unwinds the call (it is not a returned error value;
  \<open>is_panic\<close> tells the two apart). The other constructors are the error values the
  code builds: \<^verbatim>\<open>fmt.Errorf\<close> without and with \<^verbatim>\<open>%w\<close> (the text before the wrapped
  error, the wrapped error, the text after it), the \<^verbatim>\<open>*strconv.NumError\<close> of the
  parsers (function name, input, and whether it is \<^verbatim>\<open>ErrSyntax\<close> or \<^verbatim>\<open>ErrRange\<close>),
  the sentinel \<^verbatim>\<open>api.ErrFeatureAlreadyExists\<close>, and \<open>External\<close> for an error that
  code outside the modelled files hands back.
\<close>

datatype NumErr = ErrSyntax | ErrRange

datatype error =
    Panic string
  | Errorf string
  | Wrapf string error string
  | NumError string string NumErr
  | ErrFeatureAlreadyExists
  | External string

fun is_panic :: "error \<Rightarrow> bool" where
  "is_panic (Panic m) = True"
| "is_panic e = False"

text \<open>\<^verbatim>\<open>errors.Is\<close>: the error itself or an error it wraps is the target.\<close>

fun errors_Is :: "error \<Rightarrow> error \<Rightarrow> bool" where
  "errors_Is (Wrapf pre e post) target = (Wrapf pre e post = target \<or> errors_Is e target)"
| "errors_Is e target = (e = target)"

section \<open>Dynamic values\<close>

subsection \<open>Go types, as \<^verbatim>\<open>reflect.TypeOf\<close> tells them apart\<close>

text \<open>
  The dynamic type of a value held in an \<^verbatim>\<open>any\<close>: the five types the scalar tags stand
  for, the empty interface (it only occurs as the element type of \<^verbatim>\<open>[]any\<close>), slices,
  and \<open>RNamed n\<close> for any other defined type, known by its name (\<^verbatim>\<open>int64\<close>,
  \<^verbatim>\<open>float32\<close>, ...). Two types are the same type exactly when the terms are equal.
  No type of this universe has a slice as its underlying type but the slice types
  themselves, so a value is assignable to a variable of a type of the universe that is
  not an interface exactly when it has that very type.
\<close>

datatype rtype =
    RString
  | RInt
  | RFloat64
  | RBool
  | RTime
  | RInterface
  | RSlice rtype
  | RNamed string

text \<open>\<^verbatim>\<open>reflect.Type.String()\<close>.\<close>

fun rtype_String :: "rtype \<Rightarrow> string" where
  "rtype_String RString = ''string''"
| "rtype_String RInt = ''int''"
| "rtype_String RFloat64 = ''float64''"
| "rtype_String RBool = ''bool''"
| "rtype_String RTime = ''time.Time''"
| "rtype_String RInterface = ''interface {}''"
| "rtype_String (RSlice t) = ''[]'' @ rtype_String t"
| "rtype_String (RNamed n) = n"

subsection \<open>Machine integers\<close>

text \<open>
  \<^verbatim>\<open>int\<close> and \<^verbatim>\<open>int64\<close> are 64-bit two's complement words (a 64-bit platform); \<open>+\<close>,
  \<open>-\<close> and \<open>*\<close> wrap. Go's \<^verbatim>\<open>/\<close> and \<^verbatim>\<open>%\<close> truncate towards zero.
\<close>

type_synonym int64 = "64 word"
type_synonym int32 = "32 word"

definition quo64 :: "int64 \<Rightarrow> int64 \<Rightarrow> int64" where
  "quo64 a b = word_of_int (sint a sdiv sint b)"

definition rem64 :: "int64 \<Rightarrow> int64 \<Rightarrow> int64" where
  "rem64 a b = word_of_int (sint a smod sint b)"

subsection \<open>\<^verbatim>\<open>time.Time\<close>\<close>

text \<open>
  A \<^verbatim>\<open>time.Time\<close> is an instant (whole seconds since the Unix epoch as an \<^verbatim>\<open>int64\<close>,
  and the nanoseconds within the second, which \<^verbatim>\<open>nsec()\<close> returns as an \<^verbatim>\<open>int32\<close>)
  and a location. The monotonic clock reading takes no part in the functions below.
\<close>

datatype Location = Local | UTC

record Time =
  unixSec :: int64
  nsec :: int32
  loc :: Location

text \<open>
  \<^verbatim>\<open>func (t Time) UnixMicro() int64 { return t.unixSec()*1e6 + int64(t.nsec())/1e3 }\<close>
\<close>

definition Time_UnixMicro :: "Time \<Rightarrow> int64" where
  "Time_UnixMicro t = unixSec t * 1000000 + quo64 (scast (nsec t)) 1000"

text \<open>
  \<^verbatim>\<open>func Unix(sec int64, nsec int64) Time\<close>: nanoseconds outside \<open>[0, 1e9)\<close> are carried
  into the seconds; the result is in the local location.
\<close>

definition time_Unix :: "int64 \<Rightarrow> int64 \<Rightarrow> Time" where
  "time_Unix sec0 nsec0 =
     (let (sec1, nsec1) =
        (if sint nsec0 < 0 \<or> 1000000000 \<le> sint nsec0 then
           (let n = quo64 nsec0 1000000000;
                sec' = sec0 + n;
                nsec' = nsec0 - n * 1000000000
            in if sint nsec' < 0 then (sec' - 1, nsec' + 1000000000) else (sec', nsec'))
         else (sec0, nsec0))
      in \<lparr>unixSec = sec1, nsec = ucast nsec1, loc = Local\<rparr>)"

text \<open>\<^verbatim>\<open>func UnixMicro(usec int64) Time { return Unix(usec/1e6, (usec%1e6)*1e3) }\<close>\<close>

definition time_UnixMicro :: "int64 \<Rightarrow> Time" where
  "time_UnixMicro usec = time_Unix (quo64 usec 1000000) (rem64 usec 1000000 * 1000)"

subsection \<open>Values\<close>

text \<open>
  What an \<^verbatim>\<open>any\<close> can hold: the nil interface, a value of one of the five scalar Go
  types (a \<^verbatim>\<open>float64\<close> is its 64 bits), a slice with its static element type and its
  elements (\<open>VSlice RInterface xs\<close> is an \<^verbatim>\<open>[]any\<close>), or a value of another defined type,
  of which only the type's name matters here.
\<close>

datatype dyn =
    VNil
  | VString string
  | VInt int64
  | VFloat "64 word"
  | VBool bool
  | VTime Time
  | VSlice rtype "dyn list"
  | VOther string

text \<open>\<^verbatim>\<open>reflect.TypeOf\<close>: the dynamic type, or nil (\<open>None\<close>) for the nil interface.\<close>

fun reflect_TypeOf :: "dyn \<Rightarrow> rtype option" where
  "reflect_TypeOf VNil = None"
| "reflect_TypeOf (VString s) = Some RString"
| "reflect_TypeOf (VInt i) = Some RInt"
| "reflect_TypeOf (VFloat f) = Some RFloat64"
| "reflect_TypeOf (VBool b) = Some RBool"
| "reflect_TypeOf (VTime t) = Some RTime"
| "reflect_TypeOf (VSlice t xs) = Some (RSlice t)"
| "reflect_TypeOf (VOther n) = Some (RNamed n)"

text \<open>
  \<^verbatim>\<open>func (pt PrimitiveType) Interface() any\<close>: the zero value of the tag's Go type. For
  a list tag it is the empty slice of the type of the singular tag's zero value; the
  zero \<^verbatim>\<open>time.Time\<close> is the first instant of year 1, in UTC; the default branch returns
  \<^verbatim>\<open>pt\<close> itself, a value of type \<^verbatim>\<open>api.PrimitiveType\<close>.
\<close>

definition Interface_scalar :: "PrimitiveType \<Rightarrow> dyn" where
  "Interface_scalar pt =
     (case pt of
        PrimitiveTypeString \<Rightarrow> VString []
      | PrimitiveTypeInteger \<Rightarrow> VInt 0
      | PrimitiveTypeFloat \<Rightarrow> VFloat 0
      | PrimitiveTypeBoolean \<Rightarrow> VBool False
      | PrimitiveTypeTimestamp \<Rightarrow> VTime \<lparr>unixSec = - 62135596800, nsec = 0, loc = UTC\<rparr>
      | _ \<Rightarrow> VOther ''api.PrimitiveType'')"

definition Interface :: "PrimitiveType \<Rightarrow> dyn" where
  "Interface pt =
     (if \<not> Scalar pt then
        (case reflect_TypeOf (Interface_scalar (Singular pt)) of
           Some ty \<Rightarrow> VSlice ty []
         | None \<Rightarrow> VNil)
      else Interface_scalar pt)"

section \<open>The conversions of \<^verbatim>\<open>strconv\<close> that the code calls\<close>

subsection \<open>Integers in base 10\<close>

definition digit_char :: "nat \<Rightarrow> char" where
  "digit_char d = char_of (48 + d)"

definition is_digit :: "char \<Rightarrow> bool" where
  "is_digit c = (48 \<le> (of_char c :: nat) \<and> (of_char c :: nat) \<le> 57)"

definition digit_val :: "char \<Rightarrow> nat" where
  "digit_val c = (of_char c :: nat) - 48"

text \<open>The decimal digits of a natural number, most significant first, no leading zero.\<close>

fun decimal :: "nat \<Rightarrow> string" where
  "decimal n = (if n < 10 then [digit_char n] else decimal (n div 10) @ [digit_char (n mod 10)])"

declare decimal.simps [simp del]

text \<open>
  \<^verbatim>\<open>strconv.FormatInt(i, 10)\<close>, which \<^verbatim>\<open>strconv.Itoa\<close> calls: a minus sign for a negative
  number, then the digits of its magnitude.
\<close>

definition FormatInt :: "int64 \<Rightarrow> string" where
  "FormatInt i = (if sint i < 0 then CHR ''-'' # decimal (nat (- sint i)) else decimal (nat (sint i)))"

definition Itoa :: "int64 \<Rightarrow> string" where
  "Itoa i = FormatInt i"

text \<open>
  The digit loop of \<^verbatim>\<open>strconv.ParseUint\<close> in base 10: the value read so far, times ten,
  plus the next digit; any other byte is a syntax error (\<open>None\<close>). The value is
  unbounded here, and the range is checked once at the end, which, as the Go loop's
  cut-off test does, refuses exactly the numbers beyond the range.
\<close>

fun digits_value :: "nat \<Rightarrow> string \<Rightarrow> nat option" where
  "digits_value acc [] = Some acc"
| "digits_value acc (c # cs) =
     (if is_digit c then digits_value (acc * 10 + digit_val c) cs else None)"

text \<open>
  \<^verbatim>\<open>strconv.ParseInt(s, 10, 64)\<close>: an optional sign, at least one digit, nothing else;
  a magnitude outside the \<^verbatim>\<open>int64\<close> range is \<^verbatim>\<open>ErrRange\<close>. The first argument is the
  function name the \<^verbatim>\<open>NumError\<close> carries.
\<close>

definition ParseInt_as :: "string \<Rightarrow> string \<Rightarrow> error + int64" where
  "ParseInt_as fn s =
     (if s = [] then Inl (NumError fn s ErrSyntax)
      else
        let neg = (hd s = CHR ''-'');
            body = (if hd s = CHR ''+'' \<or> hd s = CHR ''-'' then tl s else s)
        in if body = [] then Inl (NumError fn s ErrSyntax)
           else (case digits_value 0 body of
                   None \<Rightarrow> Inl (NumError fn s ErrSyntax)
                 | Some un \<Rightarrow>
                     if \<not> neg \<and> 2 ^ 63 \<le> un then Inl (NumError fn s ErrRange)
                     else if neg \<and> 2 ^ 63 < un then Inl (NumError fn s ErrRange)
                     else Inr (if neg then - word_of_nat un else word_of_nat un)))"

definition ParseInt :: "string \<Rightarrow> error + int64" where
  "ParseInt s = ParseInt_as ''ParseInt'' s"

text \<open>
  \<^verbatim>\<open>strconv.Atoi\<close> with a 64-bit \<^verbatim>\<open>int\<close>: its fast path for short inputs and its call
  of \<^verbatim>\<open>ParseInt(s, 10, 0)\<close> return the same results.
\<close>

definition Atoi :: "string \<Rightarrow> error + int64" where
  "Atoi s = ParseInt_as ''Atoi'' s"

subsection \<open>Booleans\<close>

definition FormatBool :: "bool \<Rightarrow> string" where
  "FormatBool b = (if b then ''true'' else ''false'')"

definition ParseBool :: "string \<Rightarrow> error + bool" where
  "ParseBool str =
     (if str = ''1'' \<or> str = ''t'' \<or> str = ''T'' \<or> str = ''true'' \<or> str = ''TRUE''
         \<or> str = ''True'' then Inr True
      else if str = ''0'' \<or> str = ''f'' \<or> str = ''F'' \<or> str = ''false'' \<or> str = ''FALSE''
         \<or> str = ''False'' then Inr False
      else Inl (NumError ''ParseBool'' str ErrSyntax))"

subsection \<open>Floating point\<close>

text \<open>
  \<^verbatim>\<open>strconv.FormatFloat(v, 'f', -1, 64)\<close> and \<^verbatim>\<open>strconv.ParseFloat(s, 64)\<close> are not
  modelled: the functions that call them take the pair as a parameter.
\<close>

record strconv_float =
  FormatFloat :: "64 word \<Rightarrow> string"
  ParseFloat :: "string \<Rightarrow> error + 64 word"

text \<open>
  A fragment of the pair for closed instances, on floats given by their bits: what
  \<^verbatim>\<open>strconv\<close> prints for 0, 1 and 1.5 and for two NaNs (the quiet NaN
  \<open>0x7FF8000000000000\<close> and \<^verbatim>\<open>math.NaN()\<close>, which is \<open>0x7FF8000000000001\<close>; every NaN
  prints as \<^verbatim>\<open>NaN\<close>), and what it parses from these four texts (\<^verbatim>\<open>NaN\<close> parses to
  \<^verbatim>\<open>math.NaN()\<close>). Outside these values the fragment says nothing about \<^verbatim>\<open>strconv\<close>.
\<close>

definition strconv_fragment :: strconv_float where
  "strconv_fragment =
     \<lparr>FormatFloat = (\<lambda>v. if v = 0 then ''0''
                          else if v = 0x3FF0000000000000 then ''1''
                          else if v = 0x3FF8000000000000 then ''1.5''
                          else if v = 0x7FF8000000000000 \<or> v = 0x7FF8000000000001 then ''NaN''
                          else []),
      ParseFloat = (\<lambda>s. if s = ''0'' then Inr 0
                         else if s = ''1'' then Inr 0x3FF0000000000000
                         else if s = ''1.5'' then Inr 0x3FF8000000000000
                         else if s = ''NaN'' then Inr 0x7FF8000000000001
                         else Inl (NumError ''ParseFloat'' s ErrSyntax))\<rparr>"

section \<open>Scalars as strings\<close>

text \<open>
  \<^verbatim>\<open>func ScalarString(val any) string\<close>: a type switch over the five scalar Go types;
  every other value reaches \<^verbatim>\<open>panic("unreachable")\<close>.
\<close>

fun ScalarString :: "strconv_float \<Rightarrow> dyn \<Rightarrow> error + string" where
  "ScalarString sf (VString v) = Inr v"
| "ScalarString sf (VInt v) = Inr (Itoa v)"
| "ScalarString sf (VFloat v) = Inr (FormatFloat sf v)"
| "ScalarString sf (VBool v) = Inr (FormatBool v)"
| "ScalarString sf (VTime v) = Inr (FormatInt (Time_UnixMicro v))"
| "ScalarString sf v = Inl (Panic ''unreachable'')"

text \<open>
  \<^verbatim>\<open>func ScalarFromString(val string, scalar PrimitiveType) (any, error)\<close>: the guard on
  list tags first, then the switch; the unknown tag passes the guard and reaches
  \<^verbatim>\<open>panic("unreachable")\<close>.
\<close>

definition ScalarFromString :: "strconv_float \<Rightarrow> string \<Rightarrow> PrimitiveType \<Rightarrow> error + dyn" where
  "ScalarFromString sf val scalar =
     (if \<not> Scalar scalar then Inl (Errorf (PrimitiveType_String scalar @ '' is not a scalar type''))
      else (case scalar of
              PrimitiveTypeString \<Rightarrow> Inr (VString val)
            | PrimitiveTypeInteger \<Rightarrow> map_sum id VInt (Atoi val)
            | PrimitiveTypeFloat \<Rightarrow> map_sum id VFloat (ParseFloat sf val)
            | PrimitiveTypeBoolean \<Rightarrow> map_sum id VBool (ParseBool val)
            | PrimitiveTypeTimestamp \<Rightarrow>
                (case ParseInt val of
                   Inl err \<Rightarrow> Inl err
                 | Inr n \<Rightarrow> Inr (VTime (time_UnixMicro n)))
            | _ \<Rightarrow> Inl (Panic ''unreachable'')))"


section \<open>Detection and normalisation\<close>

text \<open>
  The loop of \<^verbatim>\<open>TypeDetect\<close> over the elements of the list: it answers \<open>True\<close> when it
  returns early, at the first element whose type is not the type of element 0.
\<close>

fun differs_from :: "rtype option \<Rightarrow> dyn list \<Rightarrow> bool" where
  "differs_from t0 [] = False"
| "differs_from t0 (v # vs) = (if reflect_TypeOf v \<noteq> t0 then True else differs_from t0 vs)"

text \<open>
  \<^verbatim>\<open>func TypeDetect(t any) PrimitiveType\<close>. For an \<^verbatim>\<open>[]any\<close>: the loop, then
  \<^verbatim>\<open>TypeDetect(t.([]any)[0]).Plural()\<close>, where indexing element 0 of an empty list
  panics. For every other value the type's name goes through the alias table; the nil
  interface has the nil \<^verbatim>\<open>reflect.Type\<close>, whose \<^verbatim>\<open>String\<close> method panics.
\<close>

fun TypeDetect :: "dyn \<Rightarrow> error + PrimitiveType" where
  "TypeDetect (VSlice RInterface []) =
     Inl (Panic ''runtime error: index out of range [0] with length 0'')"
| "TypeDetect (VSlice RInterface (x # xs)) =
     (if differs_from (reflect_TypeOf x) (x # xs) then Inr PrimitiveTypeUnknown
      else map_sum id Plural (TypeDetect x))"
| "TypeDetect v =
     (case reflect_TypeOf v of
        None \<Rightarrow> Inl (Panic ''runtime error: invalid memory address or nil pointer dereference'')
      | Some ty \<Rightarrow> Inr (StringToPrimitiveType (rtype_String ty)))"

text \<open>
  The loop of \<^verbatim>\<open>NormalizeAny\<close>, \<^verbatim>\<open>ret.Index(i).Set(reflect.ValueOf(v2))\<close> for each
  element: \<^verbatim>\<open>Set\<close> panics on the zero \<^verbatim>\<open>reflect.Value\<close> of a nil element and on a value
  that is not assignable to the slice's element type. The result is the list of the
  elements stored.
\<close>

fun set_elements :: "rtype \<Rightarrow> dyn list \<Rightarrow> error + dyn list" where
  "set_elements ty [] = Inr []"
| "set_elements ty (v2 # vs) =
     (case reflect_TypeOf v2 of
        None \<Rightarrow> Inl (Panic ''reflect: call of reflect.Value.Set on zero Value'')
      | Some t2 \<Rightarrow>
          if t2 \<noteq> ty then
            Inl (Panic (''reflect.Set: value of type '' @ rtype_String t2 @
                        '' is not assignable to type '' @ rtype_String ty))
          else map_sum id (Cons v2) (set_elements ty vs))"

text \<open>
  \<^verbatim>\<open>func NormalizeAny(t any) (any, error)\<close>: an empty \<^verbatim>\<open>[]any\<close> gives \<^verbatim>\<open>nil, nil\<close>; a
  non-empty one a slice whose element type is the type of element 0
  (\<^verbatim>\<open>reflect.SliceOf\<close> panics on the nil type of a nil element 0); every other value is
  returned as it is.
\<close>

fun NormalizeAny :: "dyn \<Rightarrow> error + dyn" where
  "NormalizeAny (VSlice RInterface []) = Inr VNil"
| "NormalizeAny (VSlice RInterface (v0 # vs)) =
     (case reflect_TypeOf v0 of
        None \<Rightarrow> Inl (Panic ''runtime error: invalid memory address or nil pointer dereference'')
      | Some ty \<Rightarrow> map_sum id (VSlice ty) (set_elements ty (v0 # vs)))"
| "NormalizeAny t = Inr t"

section \<open>The feature registry (package engine)\<close>

subsection \<open>State\<close>

text \<open>
  Modelled from the spec: \<^verbatim>\<open>api.FeatureDescriptor\<close> and \<^verbatim>\<open>engine.Feature\<close> are declared
  outside the files at hand. The descriptor carries the FQN, the primitive type, the
  freshness and staleness durations and the builder kind; a \<^verbatim>\<open>Feature\<close> embeds the
  descriptor and adds the runtime fields that the builder plugin fills in, opaque here.
\<close>

record FeatureDescriptor =
  FQN :: string
  Primitive :: PrimitiveType
  Freshness :: int
  Staleness :: int
  Builder :: string

record Feature =
  FeatureDescriptor :: FeatureDescriptor
  runtime :: string

text \<open>
  The engine's \<^verbatim>\<open>features\<close> map (a \<^verbatim>\<open>sync.Map\<close>, used here by one caller at a time), the
  lines its logger has received (message, key, value), and the process-wide counter
  behind \<^verbatim>\<open>stats.IncNumberOfFeatures\<close> and \<^verbatim>\<open>stats.DecNumberOfFeatures\<close>.
\<close>

record engine =
  features :: "string \<rightharpoonup> Feature"
  logger :: "(string \<times> string \<times> string) list"
  numberOfFeatures :: int

text \<open>
  Modelled from the spec: \<^verbatim>\<open>stats.IncNumberOfFeatures\<close> and
  \<^verbatim>\<open>stats.DecNumberOfFeatures\<close> (package \<^verbatim>\<open>internal/stats\<close>) add one to and take one from
  the process-wide feature counter.
\<close>

definition IncNumberOfFeatures :: "engine \<Rightarrow> engine" where
  "IncNumberOfFeatures e = e\<lparr>numberOfFeatures := numberOfFeatures e + 1\<rparr>"

definition DecNumberOfFeatures :: "engine \<Rightarrow> engine" where
  "DecNumberOfFeatures e = e\<lparr>numberOfFeatures := numberOfFeatures e - 1\<rparr>"

definition logger_Info :: "string \<Rightarrow> string \<Rightarrow> string \<Rightarrow> engine \<Rightarrow> engine" where
  "logger_Info msg k v e = e\<lparr>logger := logger e @ [(msg, k, v)]\<rparr>"

subsection \<open>Operations\<close>

text \<open>\<^verbatim>\<open>func (e *engine) HasFeature(fqn string) bool\<close>: the \<^verbatim>\<open>ok\<close> of \<^verbatim>\<open>features.Load\<close>.\<close>

definition HasFeature :: "engine \<Rightarrow> string \<Rightarrow> bool" where
  "HasFeature e fqn = (case features e fqn of None \<Rightarrow> False | Some f \<Rightarrow> True)"

text \<open>
  \<^verbatim>\<open>func (e *engine) bindFeature(f *Feature) error\<close>. The first statement defers
  \<^verbatim>\<open>stats.IncNumberOfFeatures()\<close>, so the counter moves when the function returns, on
  either path. The result is the returned error (\<open>None\<close> for nil) and the state after.
\<close>

definition bindFeature :: "engine \<Rightarrow> Feature \<Rightarrow> error option \<times> engine" where
  "bindFeature e f =
     (let (err, e1) =
        (if HasFeature e (FQN (FeatureDescriptor f))
         then (Some (Wrapf [] ErrFeatureAlreadyExists ('': '' @ FQN (FeatureDescriptor f))), e)
         else (None,
               logger_Info ''feature bound'' ''FQN'' (FQN (FeatureDescriptor f))
                 (e\<lparr>features := (features e)(FQN (FeatureDescriptor f) \<mapsto> f)\<rparr>)))
      in (err, IncNumberOfFeatures e1))"

text \<open>
  \<^verbatim>\<open>func (e *engine) UnbindFeature(fqn string) error\<close>: the deferred decrement, the
  delete, the log line, and \<^verbatim>\<open>return nil\<close>.
\<close>

definition UnbindFeature :: "engine \<Rightarrow> string \<Rightarrow> error option \<times> engine" where
  "UnbindFeature e fqn =
     (let e1 = e\<lparr>features := (features e)(fqn := None)\<rparr>;
          e2 = logger_Info ''feature unbound'' ''feature'' fqn e1
      in (None, DecNumberOfFeatures e2))"

text \<open>
  What \<^verbatim>\<open>FeatureWithEngine\<close> calls outside the files at hand, taken as parameters: the
  parser \<^verbatim>\<open>api.FeatureDescriptorFromManifest\<close>, the manifest's \<^verbatim>\<open>Spec.Builder\<close> field,
  and the registry \<^verbatim>\<open>plugins.FeatureAppliers\<close>, whose \<^verbatim>\<open>Get\<close> returns the applier of a
  builder kind or nil. An applier receives the descriptor, the builder spec, the feature
  under construction (by pointer: it returns the feature as it has changed it) and the
  engine, which it reads and does not change.
\<close>

type_synonym FeatureApply =
  "FeatureDescriptor \<Rightarrow> string \<Rightarrow> Feature \<Rightarrow> engine \<Rightarrow> error + Feature"

record 'm externals =
  FeatureDescriptorFromManifest :: "'m \<Rightarrow> error + FeatureDescriptor"
  Spec_Builder :: "'m \<Rightarrow> string"
  FeatureAppliers_Get :: "string \<Rightarrow> FeatureApply option"

text \<open>\<^verbatim>\<open>func FeatureWithEngine(e api.ExtendedManager, in *manifests.Feature) (*Feature, error)\<close>\<close>

definition FeatureWithEngine :: "'m externals \<Rightarrow> engine \<Rightarrow> 'm \<Rightarrow> error + Feature" where
  "FeatureWithEngine x e m =
     (case FeatureDescriptorFromManifest x m of
        Inl err \<Rightarrow> Inl (Wrapf ''failed to parse FeatureDescriptor from CR: '' err [])
      | Inr fd \<Rightarrow>
          (let ft = \<lparr>FeatureDescriptor = fd, runtime = []\<rparr> in
           case FeatureAppliers_Get x (Builder (FeatureDescriptor ft)) of
             Some p \<Rightarrow>
               (case p (FeatureDescriptor ft) (Spec_Builder x m) ft e of
                  Inl err \<Rightarrow> Inl err
                | Inr ft' \<Rightarrow> Inr ft')
           | None \<Rightarrow>
               Inl (Errorf (''no feature builder found for '' @ Builder (FeatureDescriptor ft)))))"

text \<open>\<^verbatim>\<open>func (e *engine) BindFeature(in *manifests.Feature) error\<close>\<close>

definition BindFeature :: "'m externals \<Rightarrow> engine \<Rightarrow> 'm \<Rightarrow> error option \<times> engine" where
  "BindFeature x e m =
     (case FeatureWithEngine x e m of
        Inl err \<Rightarrow> (Some (Wrapf ''failed to parse FeatureDescriptor from CR: '' err []), e)
      | Inr ft \<Rightarrow> bindFeature e ft)"

text \<open>
  A closed instance of the parameters: a manifest is the feature's name, every manifest
  parses to a string feature with the builder kind \<^verbatim>\<open>expression\<close>, and the one
  registered applier leaves the feature as it is.
\<close>

definition example_externals :: "string externals" where
  "example_externals =
     \<lparr>FeatureDescriptorFromManifest =
        (\<lambda>m. Inr \<lparr>FQN = m, Primitive = PrimitiveTypeString, Freshness = 0, Staleness = 0,
                   Builder = ''expression''\<rparr>),
      Spec_Builder = (\<lambda>m. []),
      FeatureAppliers_Get =
        (\<lambda>kind. if kind = ''expression'' then Some (\<lambda>fd spec ft e. Inr ft) else None)\<rparr>"

definition empty_engine :: engine where
  "empty_engine = \<lparr>features = Map.empty, logger = [], numberOfFeatures = 0\<rparr>"

section \<open>Properties of the tag functions\<close>

text \<open>
  Claim C2, as the code has it. \<^verbatim>\<open>Singular\<close> undoes \<^verbatim>\<open>Plural\<close> on every scalar tag,
  and \<^verbatim>\<open>Plural\<close> undoes \<^verbatim>\<open>Singular\<close> on every list tag; the unknown tag is a fixed
  point of both functions.
\<close>

theorem C2_singular_plural_pairing:
  "(Scalar t \<longrightarrow> Singular (Plural t) = t) \<and>
   (\<not> Scalar t \<longrightarrow> Plural (Singular t) = t) \<and>
   Singular PrimitiveTypeUnknown = PrimitiveTypeUnknown \<and>
   Plural PrimitiveTypeUnknown = PrimitiveTypeUnknown"
  by (cases t) simp_all

theorem C2_singular_plural_pairing_witness:
  "Scalar PrimitiveTypeInteger \<and>
   Singular (Plural PrimitiveTypeInteger) = PrimitiveTypeInteger \<and>
   \<not> Scalar PrimitiveTypeIntegerList \<and>
   Plural (Singular PrimitiveTypeIntegerList) = PrimitiveTypeIntegerList"
  using C2_singular_plural_pairing [of PrimitiveTypeInteger]
    C2_singular_plural_pairing [of PrimitiveTypeIntegerList]
  by simp

text \<open>
  Claim C2 as the specification words it fails: on a scalar tag \<^verbatim>\<open>Singular\<close> is the
  identity, so \<^verbatim>\<open>Plural(Singular(t))\<close> is the list tag, not \<^verbatim>\<open>t\<close>; on a list tag
  \<^verbatim>\<open>Plural\<close> is the identity, so \<^verbatim>\<open>Singular(Plural(t))\<close> is the scalar tag.
\<close>

theorem C2_as_worded_counterexample:
  "Scalar PrimitiveTypeString \<and>
   Plural (Singular PrimitiveTypeString) \<noteq> PrimitiveTypeString \<and>
   \<not> Scalar PrimitiveTypeStringList \<and>
   Singular (Plural PrimitiveTypeStringList) \<noteq> PrimitiveTypeStringList"
  by simp

section \<open>Decimal text and back\<close>












section \<open>Microseconds and back\<close>













section \<open>The round trip of scalars\<close>







section \<open>Contract violations of the scalar conversions\<close>

text \<open>
  Claim C5, as the code has it. \<^verbatim>\<open>ScalarString\<close> has no error result: on a slice, on nil
  and on every other value that is not of a scalar Go type it panics with
  \<^verbatim>\<open>unreachable\<close>. \<^verbatim>\<open>ScalarFromString\<close> with a list tag returns, for every input
  text, the error \<^verbatim>\<open><tag> is not a scalar type\<close>, which is a returned error and not a
  panic.
\<close>

theorem C5_contract_violations:
  "ScalarString sf (VSlice ty xs) = Inl (Panic ''unreachable'') \<and>
   ScalarString sf VNil = Inl (Panic ''unreachable'') \<and>
   ScalarString sf (VOther n) = Inl (Panic ''unreachable'') \<and>
   (\<not> Scalar t \<longrightarrow>
      ScalarFromString sf s t = Inl (Errorf (PrimitiveType_String t @ '' is not a scalar type'')) \<and>
      \<not> is_panic (Errorf (PrimitiveType_String t @ '' is not a scalar type'')))"
  by (simp add: ScalarFromString_def)

theorem C5_contract_violations_witness:
  "\<not> Scalar PrimitiveTypeIntegerList \<and>
   ScalarFromString strconv_fragment ''7'' PrimitiveTypeIntegerList
     = Inl (Errorf ''[]int is not a scalar type'')"
  using C5_contract_violations [of strconv_fragment RString "[]" "''x''" PrimitiveTypeIntegerList "''7''"]
  by simp

text \<open>
  Claim C5 as the specification words it fails on its first half: \<^verbatim>\<open>ScalarString\<close> of a
  list does not report an error to its caller, it panics.
\<close>

theorem C5_ScalarString_panics_counterexample:
  "ScalarString strconv_fragment (VSlice RString [VString ''a'']) = Inl (Panic ''unreachable'') \<and>
   is_panic (Panic ''unreachable'')"
  by simp

section \<open>Empty lists\<close>

text \<open>
  Claim C9. \<^verbatim>\<open>NormalizeAny\<close> of an empty \<^verbatim>\<open>[]any\<close> returns the nil value and a nil
  error; the nil value is not an empty typed slice, of whatever element type.
\<close>

theorem C9_normalize_empty_list:
  "NormalizeAny (VSlice RInterface []) = Inr VNil \<and> VNil \<noteq> VSlice ty []"
  by simp

text \<open>
  Claim C10. \<^verbatim>\<open>TypeDetect\<close> of an empty \<^verbatim>\<open>[]any\<close> returns no tag: the loop runs no
  iteration, and indexing element 0 panics with an index out of range. In particular
  the result is not the unknown tag.
\<close>

theorem C10_type_detect_empty_list:
  "TypeDetect (VSlice RInterface []) =
     Inl (Panic ''runtime error: index out of range [0] with length 0'') \<and>
   is_panic (Panic ''runtime error: index out of range [0] with length 0'') \<and>
   TypeDetect (VSlice RInterface []) \<noteq> Inr PrimitiveTypeUnknown \<and>
   (\<forall>t. TypeDetect (VSlice RInterface []) \<noteq> Inr t)"
  by simp

section \<open>Detection of list types\<close>

lemma differs_from_iff:
  "differs_from t0 xs \<longleftrightarrow> (\<exists>v\<in>set xs. reflect_TypeOf v \<noteq> t0)"
  by (induction xs) auto

lemma TypeDetect_not_any_list:
  assumes "reflect_TypeOf x = Some ty" "ty \<noteq> RSlice RInterface"
  shows "TypeDetect x = Inr (StringToPrimitiveType (rtype_String ty))"
  using assms by (cases x rule: TypeDetect.cases) auto

lemma tag_of_Interface:
  "\<exists>ty. reflect_TypeOf (Interface t) = Some ty \<and> ty \<noteq> RSlice RInterface \<and>
     StringToPrimitiveType (rtype_String ty) = t"
  by (cases t)
    (simp_all add: Interface_def Interface_scalar_def StringToPrimitiveType_def ToLower_def
      lower_byte_def char_of_def bit_Suc_0_iff)

lemma TypeDetect_same_type:
  assumes "xs \<noteq> []" "\<forall>v\<in>set xs. reflect_TypeOf v = Some ty" "ty \<noteq> RSlice RInterface"
  shows "TypeDetect (VSlice RInterface xs) = Inr (Plural (StringToPrimitiveType (rtype_String ty)))"
proof -
  obtain x ys where xs: "xs = x # ys"
    using assms(1) by (cases xs) auto
  have x: "reflect_TypeOf x = Some ty"
    using assms(2) xs by simp
  have "\<not> differs_from (reflect_TypeOf x) (x # ys)"
    using assms(2) xs x by (simp add: differs_from_iff)
  then show ?thesis
    using xs x assms(3) by (simp add: TypeDetect_not_any_list)
qed

lemma TypeDetect_mixed:
  assumes "\<exists>v\<in>set xs. \<exists>w\<in>set xs. reflect_TypeOf v \<noteq> reflect_TypeOf w"
  shows "TypeDetect (VSlice RInterface xs) = Inr PrimitiveTypeUnknown"
proof -
  obtain x ys where xs: "xs = x # ys"
    using assms by (cases xs) auto
  have "\<exists>v\<in>set xs. reflect_TypeOf v \<noteq> reflect_TypeOf x"
    using assms by metis
  then have "differs_from (reflect_TypeOf x) (x # ys)"
    using xs by (simp add: differs_from_iff)
  then show ?thesis
    using xs by simp
qed

text \<open>
  Claim C3. A non-empty \<^verbatim>\<open>[]any\<close> whose elements all have the Go type of the tag
  \<open>t\<close> (the type of \<^verbatim>\<open>t.Interface()\<close>) is detected as \<^verbatim>\<open>t.Plural()\<close>; more generally, when
  all elements have one Go type other than \<^verbatim>\<open>[]any\<close>, the result is the plural of the
  tag the alias table gives to that type's name. A list with two elements of different
  Go types is detected as the unknown tag.
\<close>

theorem C3_type_detect_lists:
  "(xs \<noteq> [] \<and> (\<forall>v\<in>set xs. reflect_TypeOf v = reflect_TypeOf (Interface t)) \<longrightarrow>
      TypeDetect (VSlice RInterface xs) = Inr (Plural t)) \<and>
   (xs \<noteq> [] \<and> (\<forall>v\<in>set xs. reflect_TypeOf v = Some ty) \<and> ty \<noteq> RSlice RInterface \<longrightarrow>
      TypeDetect (VSlice RInterface xs) = Inr (Plural (StringToPrimitiveType (rtype_String ty)))) \<and>
   ((\<exists>v\<in>set xs. \<exists>w\<in>set xs. reflect_TypeOf v \<noteq> reflect_TypeOf w) \<longrightarrow>
      TypeDetect (VSlice RInterface xs) = Inr PrimitiveTypeUnknown)"
proof (intro conjI impI)
  assume a: "xs \<noteq> [] \<and> (\<forall>v\<in>set xs. reflect_TypeOf v = reflect_TypeOf (Interface t))"
  obtain ty' where ty': "reflect_TypeOf (Interface t) = Some ty'" "ty' \<noteq> RSlice RInterface"
    "StringToPrimitiveType (rtype_String ty') = t"
    using tag_of_Interface[of t] by blast
  show "TypeDetect (VSlice RInterface xs) = Inr (Plural t)"
    using a ty' TypeDetect_same_type[of xs ty'] by simp
next
  assume "xs \<noteq> [] \<and> (\<forall>v\<in>set xs. reflect_TypeOf v = Some ty) \<and> ty \<noteq> RSlice RInterface"
  then show "TypeDetect (VSlice RInterface xs) = Inr (Plural (StringToPrimitiveType (rtype_String ty)))"
    by (simp add: TypeDetect_same_type)
next
  assume "\<exists>v\<in>set xs. \<exists>w\<in>set xs. reflect_TypeOf v \<noteq> reflect_TypeOf w"
  then show "TypeDetect (VSlice RInterface xs) = Inr PrimitiveTypeUnknown"
    by (rule TypeDetect_mixed)
qed

theorem C3_type_detect_lists_witness:
  "TypeDetect (VSlice RInterface [VInt 1, VInt 2]) = Inr PrimitiveTypeIntegerList \<and>
   TypeDetect (VSlice RInterface [VString ''a'', VInt 1]) = Inr PrimitiveTypeUnknown"
proof -
  have h1: "[VInt 1, VInt 2] \<noteq> [] \<and>
      (\<forall>v\<in>set [VInt 1, VInt 2]. reflect_TypeOf v = reflect_TypeOf (Interface PrimitiveTypeInteger))"
    by (simp add: Interface_def Interface_scalar_def)
  have h2: "\<exists>v\<in>set [VString ''a'', VInt 1]. \<exists>w\<in>set [VString ''a'', VInt 1].
      reflect_TypeOf v \<noteq> reflect_TypeOf w"
    by (intro bexI[of _ "VString ''a''"] bexI[of _ "VInt 1"]) simp_all
  show ?thesis
    using h1 h2 C3_type_detect_lists [of "[VInt 1, VInt 2]" PrimitiveTypeInteger RInt]
      C3_type_detect_lists [of "[VString ''a'', VInt 1]" PrimitiveTypeString RString]
    by (metis Plural.simps(2))
qed

section \<open>Normalisation of lists with mixed types\<close>








section \<open>The feature registry\<close>

lemma bindFeature_bound:
  assumes "features e (FQN (FeatureDescriptor f)) = Some g"
  shows "bindFeature e f =
    (Some (Wrapf [] ErrFeatureAlreadyExists ('': '' @ FQN (FeatureDescriptor f))),
     IncNumberOfFeatures e)"
  using assms by (simp add: bindFeature_def HasFeature_def)

lemma bindFeature_unbound:
  assumes "features e (FQN (FeatureDescriptor f)) = None"
  shows "bindFeature e f =
    (None, IncNumberOfFeatures
       (logger_Info ''feature bound'' ''FQN'' (FQN (FeatureDescriptor f))
          (e\<lparr>features := (features e)(FQN (FeatureDescriptor f) \<mapsto> f)\<rparr>)))"
  using assms by (simp add: bindFeature_def HasFeature_def)

lemma features_Inc [simp]: "features (IncNumberOfFeatures e) = features e"
  by (simp add: IncNumberOfFeatures_def)

lemma features_Dec [simp]: "features (DecNumberOfFeatures e) = features e"
  by (simp add: DecNumberOfFeatures_def)

lemma features_Info [simp]: "features (logger_Info m k v e) = features e"
  by (simp add: logger_Info_def)

text \<open>
  Claim C6. When a feature is bound under the FQN of \<open>f\<close>, \<^verbatim>\<open>bindFeature\<close> returns an
  error that wraps \<^verbatim>\<open>ErrFeatureAlreadyExists\<close> and leaves the registry map as it was, so
  the feature bound first is still the one stored; the same holds for \<^verbatim>\<open>BindFeature\<close>
  whenever the manifest yields a feature with that FQN. In particular, after a first
  bind of \<open>f\<close> on an engine without that FQN, a bind of any \<open>f'\<close> with the same FQN
  fails in this way and \<open>f\<close> stays bound.
\<close>

theorem C6_bind_twice_already_exists:
  "(features e (FQN (FeatureDescriptor f)) = Some g \<longrightarrow>
      fst (bindFeature e f) =
        Some (Wrapf [] ErrFeatureAlreadyExists ('': '' @ FQN (FeatureDescriptor f))) \<and>
      errors_Is (Wrapf [] ErrFeatureAlreadyExists ('': '' @ FQN (FeatureDescriptor f)))
        ErrFeatureAlreadyExists \<and>
      features (snd (bindFeature e f)) = features e \<and>
      features (snd (bindFeature e f)) (FQN (FeatureDescriptor f)) = Some g) \<and>
   (FeatureWithEngine x e m = Inr f \<and> features e (FQN (FeatureDescriptor f)) = Some g \<longrightarrow>
      fst (BindFeature x e m) =
        Some (Wrapf [] ErrFeatureAlreadyExists ('': '' @ FQN (FeatureDescriptor f))) \<and>
      features (snd (BindFeature x e m)) = features e) \<and>
   (features e (FQN (FeatureDescriptor f)) = None \<and>
    FQN (FeatureDescriptor f') = FQN (FeatureDescriptor f) \<longrightarrow>
      fst (bindFeature e f) = None \<and>
      fst (bindFeature (snd (bindFeature e f)) f') =
        Some (Wrapf [] ErrFeatureAlreadyExists ('': '' @ FQN (FeatureDescriptor f))) \<and>
      features (snd (bindFeature (snd (bindFeature e f)) f')) (FQN (FeatureDescriptor f)) = Some f)"
proof (intro conjI impI)
  assume a: "features e (FQN (FeatureDescriptor f)) = None \<and>
    FQN (FeatureDescriptor f') = FQN (FeatureDescriptor f)"
  let ?e1 = "snd (bindFeature e f)"
  have e1: "features ?e1 (FQN (FeatureDescriptor f')) = Some f"
    using a by (simp add: bindFeature_unbound)
  show "fst (bindFeature e f) = None"
    using a by (simp add: bindFeature_unbound)
  show "fst (bindFeature ?e1 f') =
      Some (Wrapf [] ErrFeatureAlreadyExists ('': '' @ FQN (FeatureDescriptor f)))"
    using a bindFeature_bound[OF e1] by simp
  show "features (snd (bindFeature ?e1 f')) (FQN (FeatureDescriptor f)) = Some f"
    using a e1 bindFeature_bound[OF e1] by simp
qed (simp_all add: bindFeature_bound BindFeature_def)

theorem C6_bind_twice_already_exists_witness:
  "fst (BindFeature example_externals empty_engine ''hello_world'') = None \<and>
   fst (BindFeature example_externals
          (snd (BindFeature example_externals empty_engine ''hello_world'')) ''hello_world'')
     = Some (Wrapf [] ErrFeatureAlreadyExists '': hello_world'') \<and>
   features (snd (BindFeature example_externals
          (snd (BindFeature example_externals empty_engine ''hello_world'')) ''hello_world''))
     = features (snd (BindFeature example_externals empty_engine ''hello_world''))"
proof -
  let ?f = "\<lparr>FeatureDescriptor = \<lparr>FQN = ''hello_world'', Primitive = PrimitiveTypeString,
      Freshness = 0, Staleness = 0, Builder = ''expression''\<rparr>, runtime = []\<rparr>"
  let ?e1 = "snd (BindFeature example_externals empty_engine ''hello_world'')"
  have w: "FeatureWithEngine example_externals e ''hello_world'' = Inr ?f" for e
    by (simp add: FeatureWithEngine_def example_externals_def)
  have first: "BindFeature example_externals empty_engine ''hello_world'' = bindFeature empty_engine ?f"
    by (simp add: BindFeature_def w)
  have none: "features empty_engine (FQN (FeatureDescriptor ?f)) = None"
    by (simp add: empty_engine_def)
  have bound: "features ?e1 (FQN (FeatureDescriptor ?f)) = Some ?f"
    using none by (simp add: first bindFeature_unbound)
  show ?thesis
    using C6_bind_twice_already_exists [of ?e1 ?f ?f example_externals "''hello_world''" ?f] w bound
    by (simp add: first bindFeature_unbound[OF none])
qed

lemma bindFeature_counter:
  "numberOfFeatures (snd (bindFeature e f)) = numberOfFeatures e + 1"
  by (simp add: bindFeature_def IncNumberOfFeatures_def logger_Info_def split: prod.splits)

lemma example_feature:
  "FeatureWithEngine example_externals e ''hello_world'' =
     Inr \<lparr>FeatureDescriptor = \<lparr>FQN = ''hello_world'', Primitive = PrimitiveTypeString,
            Freshness = 0, Staleness = 0, Builder = ''expression''\<rparr>, runtime = []\<rparr>"
  by (simp add: FeatureWithEngine_def example_externals_def)

text \<open>
  Claim C7 fails on the code. \<^verbatim>\<open>bindFeature\<close> defers the increment before it looks the
  FQN up, so the counter moves on the failing path too: binding \<^verbatim>\<open>hello_world\<close> twice
  on an empty engine leaves one feature in the registry, the second call returns the
  already-exists error, and the counter reads 2.
\<close>

theorem C7_failed_bind_increments_counter:
  "fst (BindFeature example_externals empty_engine ''hello_world'') = None \<and>
   numberOfFeatures (snd (BindFeature example_externals empty_engine ''hello_world'')) = 1 \<and>
   fst (BindFeature example_externals
          (snd (BindFeature example_externals empty_engine ''hello_world'')) ''hello_world'')
     = Some (Wrapf [] ErrFeatureAlreadyExists '': hello_world'') \<and>
   numberOfFeatures (snd (BindFeature example_externals
          (snd (BindFeature example_externals empty_engine ''hello_world'')) ''hello_world'')) = 2 \<and>
   dom (features (snd (BindFeature example_externals
          (snd (BindFeature example_externals empty_engine ''hello_world'')) ''hello_world'')))
     = {''hello_world''}"
  by (simp add: BindFeature_def example_feature bindFeature_def HasFeature_def empty_engine_def
      IncNumberOfFeatures_def logger_Info_def)

text \<open>
  Claim C8. \<^verbatim>\<open>UnbindFeature\<close> returns nil for every FQN, bound or not, also when called
  a second time, and \<^verbatim>\<open>HasFeature\<close> is false after each call; for an FQN that is not
  bound it is false before the call as well.
\<close>

theorem C8_unbind_idempotent:
  "fst (UnbindFeature e fqn) = None \<and>
   \<not> HasFeature (snd (UnbindFeature e fqn)) fqn \<and>
   fst (UnbindFeature (snd (UnbindFeature e fqn)) fqn) = None \<and>
   \<not> HasFeature (snd (UnbindFeature (snd (UnbindFeature e fqn)) fqn)) fqn \<and>
   (features e fqn = None \<longrightarrow>
      \<not> HasFeature e fqn \<and> \<not> HasFeature (snd (UnbindFeature e fqn)) fqn)"
  by (simp add: UnbindFeature_def HasFeature_def Let_def)

theorem C8_unbind_idempotent_witness:
  "features empty_engine ''never_bound'' = None \<and>
   \<not> HasFeature empty_engine ''never_bound'' \<and>
   fst (UnbindFeature empty_engine ''never_bound'') = None \<and>
   \<not> HasFeature (snd (UnbindFeature empty_engine ''never_bound'')) ''never_bound''"
proof -
  have h: "features empty_engine ''never_bound'' = None"
    by (simp add: empty_engine_def)
  show ?thesis
    using h C8_unbind_idempotent [of empty_engine "''never_bound''"] by blast
qed

end
